theory Spec2Isabelle
  imports Complex_Main "HOL-Library.Word"
begin

unbundle bit_operations_syntax

section \<open>The ADF4351 driver (ADF4351.h, ADF4351.cpp)\<close>

text \<open>
  The driver keeps a handful of settings, turns a requested output frequency into the
  six register words of the synthesizer and shifts them out over SPI.

  Numbers. \<open>uint8_t\<close>, \<open>uint16_t\<close> and \<open>uint32_t\<close> are words of that width. A
  \<open>double\<close> is modelled as a real number: the arithmetic is the exact one, without the
  rounding of a binary format, and without infinities or NaN; where the rounding decides
  a property, the computation is given a second time with the rounding as a parameter
  (\<open>updateRegisters_locals_rnd\<close>). Three things that C++ leaves
  undefined are results of their own in the model, so that no HOL default (such as
  \<open>x / 0 = 0\<close>) stands in for them: a floating division by zero, the conversion of a
  floating value to an integer type that cannot hold it, and an integer division by zero.
\<close>

type_synonym uint8_t = "8 word"
type_synonym uint16_t = "16 word"
type_synonym uint32_t = "32 word"

datatype undefined_behaviour =
    FloatDivisionByZero
  | FloatToIntOutOfRange
  | IntegerDivisionByZero

subsection \<open>The C library functions and conversions the driver uses\<close>

text \<open>\<open>floor\<close> of \<open>math.h\<close>: the largest integral value not above the argument.\<close>

definition c_floor :: "real \<Rightarrow> real" where
  "c_floor x = real_of_int \<lfloor>x\<rfloor>"

text \<open>\<open>round\<close> of \<open>math.h\<close>: the nearest integral value, halfway cases away from zero.\<close>

definition c_round :: "real \<Rightarrow> real" where
  "c_round x = (if 0 \<le> x then real_of_int \<lfloor>x + 1 / 2\<rfloor> else real_of_int \<lceil>x - 1 / 2\<rceil>)"

text \<open>
  The conversion \<open>(uint16_t) x\<close> of a \<open>double\<close>: the fractional part is discarded, and
  the behaviour is undefined when the truncated value is not one of 0 .. 65535.
\<close>

definition to_uint16 :: "real \<Rightarrow> undefined_behaviour + uint16_t" where
  "to_uint16 x =
     (if - 1 < x \<and> x < 65536
      then Inr (word_of_int (if 0 \<le> x then \<lfloor>x\<rfloor> else \<lceil>x\<rceil>))
      else Inl FloatToIntOutOfRange)"

text \<open>The conversion of a \<open>uint16_t\<close> to \<open>double\<close>, as in \<open>N - N_int\<close>.\<close>

definition of_uint16 :: "uint16_t \<Rightarrow> real" where
  "of_uint16 w = real (unat w)"

subsection \<open>The object and the hardware it drives\<close>

text \<open>
  What the Arduino primitives called by \<open>writeRegister\<close> do to the outside world is
  recorded as a trace of events, the oldest first.
\<close>

datatype hw_event =
    PinMode_OUTPUT uint8_t
  | DigitalWrite uint8_t bool
  | SPI_begin
  | SPI_setDataMode_MODE0
  | SPI_setBitOrder_MSBFIRST
  | SPI_transfer uint8_t
  | DelayMicroseconds nat

text \<open>The private members of class \<open>ADF4351\<close> (without their leading underscore).\<close>

record adf4351 =
  lePin :: uint8_t
  refFreqMHz :: real
  outputFreqMHz :: real
  pfdFreqMHz :: real
  rCounter :: uint8_t
  refDoubler :: uint8_t
  refDiv2 :: uint8_t
  outputPower :: uint8_t
  rfOutputEnable :: uint8_t
  chargePumpCurr :: uint8_t
  bus :: "hw_event list"

text \<open>The constructor; nothing has been sent yet.\<close>

definition ADF4351 :: "uint8_t \<Rightarrow> adf4351" where
  "ADF4351 pin =
     \<lparr> lePin = pin, refFreqMHz = 25, outputFreqMHz = 0, pfdFreqMHz = 25,
       rCounter = 1, refDoubler = 0, refDiv2 = 0,
       outputPower = 3, rfOutputEnable = 1, chargePumpCurr = 7, bus = [] \<rparr>"

text \<open>
  The phase detector frequency, as \<open>begin\<close> and \<open>setReference\<close> compute it. The integer
  operands are promoted to \<open>int\<close> before the arithmetic, so \<open>1 + _refDoubler\<close> does not
  wrap (\<open>int\<close> is taken to be wide enough for 255 * 256). A zero divisor is a floating
  division by zero.
\<close>

definition begin_ADF4351 :: "adf4351 \<Rightarrow> real \<Rightarrow> undefined_behaviour + adf4351" where
  "begin_ADF4351 s ref =
     (let s1 = s\<lparr>refFreqMHz := ref,
                  bus := bus s @ [PinMode_OUTPUT (lePin s), DigitalWrite (lePin s) True,
                                  SPI_begin, SPI_setDataMode_MODE0, SPI_setBitOrder_MSBFIRST]\<rparr>;
          divisor = unat (rCounter s1) * (1 + unat (refDiv2 s1))
      in if divisor = 0 then Inl FloatDivisionByZero
         else Inr (s1\<lparr>pfdFreqMHz :=
                 refFreqMHz s1 * real (1 + unat (refDoubler s1)) / real divisor\<rparr>))"

definition setReference ::
  "adf4351 \<Rightarrow> real \<Rightarrow> uint8_t \<Rightarrow> uint8_t \<Rightarrow> uint8_t \<Rightarrow> undefined_behaviour + adf4351" where
  "setReference s ref r dbl div2 =
     (let s1 = s\<lparr>refFreqMHz := ref, rCounter := r, refDoubler := dbl, refDiv2 := div2\<rparr>;
          divisor = unat (rCounter s1) * (1 + unat (refDiv2 s1))
      in if divisor = 0 then Inl FloatDivisionByZero
         else Inr (s1\<lparr>pfdFreqMHz :=
                 refFreqMHz s1 * real (1 + unat (refDoubler s1)) / real divisor\<rparr>))"

definition setOutputPower :: "adf4351 \<Rightarrow> uint8_t \<Rightarrow> adf4351" where
  "setOutputPower s power' = s\<lparr>outputPower := (if power' > 3 then 3 else power')\<rparr>"

definition enableOutput :: "adf4351 \<Rightarrow> bool \<Rightarrow> adf4351" where
  "enableOutput s enable = s\<lparr>rfOutputEnable := (if enable then 1 else 0)\<rparr>"

definition setChargePumpCurrent :: "adf4351 \<Rightarrow> uint8_t \<Rightarrow> adf4351" where
  "setChargePumpCurrent s current = s\<lparr>chargePumpCurr := (if current > 15 then 15 else current)\<rparr>"

definition getFrequency :: "adf4351 \<Rightarrow> real" where
  "getFrequency s = outputFreqMHz s"

definition getPFDFrequency :: "adf4351 \<Rightarrow> real" where
  "getPFDFrequency s = pfdFreqMHz s"

subsection \<open>writeRegister\<close>

text \<open>
  One register write: latch enable low, the four bytes of the word with the most
  significant first, latch enable high, five microseconds of delay.
\<close>

definition spi_frame :: "uint8_t \<Rightarrow> uint32_t \<Rightarrow> hw_event list" where
  "spi_frame pin data =
     [ DigitalWrite pin False,
       SPI_transfer (ucast (drop_bit 24 data AND 0xFF)),
       SPI_transfer (ucast (drop_bit 16 data AND 0xFF)),
       SPI_transfer (ucast (drop_bit 8 data AND 0xFF)),
       SPI_transfer (ucast (data AND 0xFF)),
       DigitalWrite pin True,
       DelayMicroseconds 5 ]"

definition writeRegister :: "adf4351 \<Rightarrow> uint32_t \<Rightarrow> adf4351" where
  "writeRegister s data = s\<lparr>bus := bus s @ spi_frame (lePin s) data\<rparr>"

subsection \<open>selectOutputDivider\<close>

text \<open>The two reference parameters are returned as a pair (outDivider, outRFdivSel).\<close>

definition selectOutputDivider :: "real \<Rightarrow> real \<times> uint8_t" where
  "selectOutputDivider freqMHz =
     (if freqMHz \<ge> 2200 then (1, 0)
      else if freqMHz \<ge> 1100 then (2, 1)
      else if freqMHz \<ge> 550 then (4, 2)
      else if freqMHz \<ge> 275 then (8, 3)
      else if freqMHz \<ge> 137.5 then (16, 4)
      else if freqMHz \<ge> 68.75 then (32, 5)
      else (64, 6))"

subsection \<open>updateRegisters\<close>

text \<open>
  The function is modelled in three parts that follow its text: the local variables it
  computes up to the band select divider, the six register words built from them, and
  the writes. \<open>None\<close> for the locals is the early \<open>return false\<close> of the VCO range check.

  In the carry correction the operands of \<open>N_frac / MOD\<close> and \<open>N_int + ...\<close> are promoted
  to \<open>int\<close> and the sum is stored back into a \<open>uint16_t\<close>, which is the division and the
  wrapping addition of 16-bit words.
\<close>

record locals =
  outputDivider :: real
  RFdivSel :: uint8_t
  vcoFreqMHz :: real
  N :: real
  N_int :: uint16_t
  MOD :: uint16_t
  N_frac :: uint16_t
  prescaler :: uint8_t
  ldp :: uint8_t
  ldf :: uint8_t
  feedbackSelect :: uint8_t
  bandSelDiv :: uint16_t

definition updateRegisters_locals ::
  "adf4351 \<Rightarrow> real \<Rightarrow> undefined_behaviour + locals option" where
  "updateRegisters_locals s channelSpacingMHz =
     (let (outputDivider, RFdivSel) = selectOutputDivider (outputFreqMHz s);
          vcoFreqMHz = outputFreqMHz s * outputDivider
      in if vcoFreqMHz < 2200 \<or> vcoFreqMHz > 4400 then Inr None
         else if pfdFreqMHz s = 0 then Inl FloatDivisionByZero
         else
           let N = vcoFreqMHz / pfdFreqMHz s in
           case to_uint16 (c_floor N) of
             Inl ub \<Rightarrow> Inl ub
           | Inr N_int0 \<Rightarrow>
               if channelSpacingMHz = 0 then Inl FloatDivisionByZero
               else
                 case to_uint16 (c_round (pfdFreqMHz s / channelSpacingMHz)) of
                   Inl ub \<Rightarrow> Inl ub
                 | Inr MOD0 \<Rightarrow>
                     let MOD = (if MOD0 > 4095 then 4095 else MOD0) in
                     case to_uint16 (c_round ((N - of_uint16 N_int0) * of_uint16 MOD)) of
                       Inl ub \<Rightarrow> Inl ub
                     | Inr N_frac0 \<Rightarrow>
                         if N_frac0 \<ge> MOD \<and> MOD = 0 then Inl IntegerDivisionByZero
                         else
                           let N_int = (if N_frac0 \<ge> MOD then N_int0 + N_frac0 div MOD else N_int0);
                               N_frac = (if N_frac0 \<ge> MOD then N_frac0 mod MOD else N_frac0);
                               prescaler = (if N_int < 75 then 0 else 1);
                               ldp = (if N_frac = 0 then 1 else 0);
                               ldf = (if N_frac = 0 then 1 else 0);
                               feedbackSelect = (if outputDivider > 1 then 1 else 1);
                               bandSelDiv = 200
                           in Inr (Some
                                \<lparr> outputDivider = outputDivider, RFdivSel = RFdivSel,
                                  vcoFreqMHz = vcoFreqMHz, N = N, N_int = N_int, MOD = MOD,
                                  N_frac = N_frac, prescaler = prescaler, ldp = ldp, ldf = ldf,
                                  feedbackSelect = feedbackSelect, bandSelDiv = bandSelDiv \<rparr>))"

text \<open>
  The same locals with the rounding of \<open>double\<close> arithmetic made explicit: the exact
  result of every multiplication, division and subtraction of doubles passes through
  \<open>rnd\<close>, the rounding to the floating format in use. \<open>floor\<close>, \<open>round\<close>, the comparisons
  and the conversion of a \<open>uint16_t\<close> to \<open>double\<close> are exact. With the identity for
  \<open>rnd\<close> this is \<open>updateRegisters_locals\<close>.
\<close>

definition updateRegisters_locals_rnd ::
  "(real \<Rightarrow> real) \<Rightarrow> adf4351 \<Rightarrow> real \<Rightarrow> undefined_behaviour + locals option" where
  "updateRegisters_locals_rnd rnd s channelSpacingMHz =
     (let (outputDivider, RFdivSel) = selectOutputDivider (outputFreqMHz s);
          vcoFreqMHz = rnd (outputFreqMHz s * outputDivider)
      in if vcoFreqMHz < 2200 \<or> vcoFreqMHz > 4400 then Inr None
         else if pfdFreqMHz s = 0 then Inl FloatDivisionByZero
         else
           let N = rnd (vcoFreqMHz / pfdFreqMHz s) in
           case to_uint16 (c_floor N) of
             Inl ub \<Rightarrow> Inl ub
           | Inr N_int0 \<Rightarrow>
               if channelSpacingMHz = 0 then Inl FloatDivisionByZero
               else
                 case to_uint16 (c_round (rnd (pfdFreqMHz s / channelSpacingMHz))) of
                   Inl ub \<Rightarrow> Inl ub
                 | Inr MOD0 \<Rightarrow>
                     let MOD = (if MOD0 > 4095 then 4095 else MOD0) in
                     case to_uint16
                            (c_round (rnd (rnd (N - of_uint16 N_int0) * of_uint16 MOD))) of
                       Inl ub \<Rightarrow> Inl ub
                     | Inr N_frac0 \<Rightarrow>
                         if N_frac0 \<ge> MOD \<and> MOD = 0 then Inl IntegerDivisionByZero
                         else
                           let N_int = (if N_frac0 \<ge> MOD then N_int0 + N_frac0 div MOD else N_int0);
                               N_frac = (if N_frac0 \<ge> MOD then N_frac0 mod MOD else N_frac0);
                               prescaler = (if N_int < 75 then 0 else 1);
                               ldp = (if N_frac = 0 then 1 else 0);
                               ldf = (if N_frac = 0 then 1 else 0);
                               feedbackSelect = (if outputDivider > 1 then 1 else 1);
                               bandSelDiv = 200
                           in Inr (Some
                                \<lparr> outputDivider = outputDivider, RFdivSel = RFdivSel,
                                  vcoFreqMHz = vcoFreqMHz, N = N, N_int = N_int, MOD = MOD,
                                  N_frac = N_frac, prescaler = prescaler, ldp = ldp, ldf = ldf,
                                  feedbackSelect = feedbackSelect, bandSelDiv = bandSelDiv \<rparr>))"

text \<open>
  The register words, field by field as the source ORs them in; a field that the source
  sets to zero is a shift of 0.
\<close>

definition reg0 :: "locals \<Rightarrow> uint32_t" where
  "reg0 l = 0x0 OR push_bit 15 (ucast (N_int l)) OR push_bit 3 (ucast (N_frac l))"

definition reg1 :: "locals \<Rightarrow> uint32_t" where
  "reg1 l = 0x1 OR push_bit 3 (ucast (MOD l)) OR push_bit 15 1
              OR push_bit 27 (ucast (prescaler l))"

definition reg2 :: "adf4351 \<Rightarrow> locals \<Rightarrow> uint32_t" where
  "reg2 s l = 0x2 OR push_bit 3 0 OR push_bit 4 0 OR push_bit 5 0 OR push_bit 6 1
              OR push_bit 7 (ucast (ldp l))
              OR push_bit 8 (ucast (ldf l))
              OR push_bit 9 (ucast (chargePumpCurr s))
              OR push_bit 13 0
              OR push_bit 14 (ucast (rCounter s))
              OR push_bit 24 (ucast (refDiv2 s))
              OR push_bit 25 (ucast (refDoubler s))
              OR push_bit 26 0 OR push_bit 29 0"

definition reg3 :: uint32_t where
  "reg3 = 0x3 OR push_bit 3 150 OR push_bit 15 0 OR push_bit 18 0 OR push_bit 21 0
            OR push_bit 22 0 OR push_bit 23 0"

definition reg4 :: "adf4351 \<Rightarrow> locals \<Rightarrow> uint32_t" where
  "reg4 s l = 0x4 OR push_bit 3 (ucast (outputPower s AND 0x3))
              OR push_bit 5 (ucast (rfOutputEnable s))
              OR push_bit 6 0 OR push_bit 8 0 OR push_bit 9 0 OR push_bit 10 0
              OR push_bit 11 0
              OR push_bit 12 (ucast (bandSelDiv l AND 0xFF))
              OR push_bit 20 (ucast (RFdivSel l AND 0x7))
              OR push_bit 23 (ucast (feedbackSelect l))"

definition reg5 :: uint32_t where
  "reg5 = 0x5 OR push_bit 19 3 OR push_bit 21 0 OR push_bit 22 1"

text \<open>The result is the returned \<open>bool\<close> with the object as the call leaves it.\<close>

definition updateRegisters ::
  "adf4351 \<Rightarrow> real \<Rightarrow> undefined_behaviour + bool \<times> adf4351" where
  "updateRegisters s channelSpacingMHz =
     (case updateRegisters_locals s channelSpacingMHz of
        Inl ub \<Rightarrow> Inl ub
      | Inr None \<Rightarrow> Inr (False, s)
      | Inr (Some l) \<Rightarrow>
          let s5 = writeRegister s reg5;
              s4 = writeRegister s5 (reg4 s l);
              s3 = writeRegister s4 reg3;
              s2 = writeRegister s3 (reg2 s l);
              s1 = writeRegister s2 (reg1 l);
              s0 = writeRegister s1 (reg0 l)
          in Inr (True, s0))"

subsection \<open>setFrequency\<close>

definition setFrequency ::
  "adf4351 \<Rightarrow> real \<Rightarrow> real \<Rightarrow> undefined_behaviour + bool \<times> adf4351" where
  "setFrequency s freqMHz channelSpacingMHz =
     (if freqMHz < 35 \<or> freqMHz > 4400 then Inr (False, s)
      else updateRegisters (s\<lparr>outputFreqMHz := freqMHz\<rparr>) channelSpacingMHz)"

section \<open>Properties\<close>

subsection \<open>Conversions\<close>

lemma to_uint16_of_int:
  assumes "0 \<le> k" and "k < 65536"
  shows "to_uint16 (real_of_int k) = Inr (word_of_int k)"
  using assms by (simp add: to_uint16_def)

lemma uint_uint16_of_int:
  assumes "0 \<le> k" and "k < 65536"
  shows "uint (word_of_int k :: uint16_t) = k"
  using assms by (simp add: uint_word_of_int take_bit_eq_mod)

lemma of_uint16_of_int:
  assumes "0 \<le> k" and "k < 65536"
  shows "of_uint16 (word_of_int k) = real_of_int k"
  using assms uint_uint16_of_int [OF assms] by (simp add: of_uint16_def unat_eq_nat_uint)

lemma c_round_nonneg:
  assumes "0 \<le> x"
  shows "c_round x = real_of_int \<lfloor>x + 1 / 2\<rfloor>"
  using assms by (simp add: c_round_def)

subsection \<open>The output divider and the VCO range\<close>

lemma selectOutputDivider_vco:
  assumes "35 \<le> f" and "f \<le> 4400"
  shows "2200 \<le> f * fst (selectOutputDivider f)"
    and "f * fst (selectOutputDivider f) \<le> 4400"
  using assms by (auto simp: selectOutputDivider_def)

lemma updateRegisters_locals_vco:
  assumes "35 \<le> outputFreqMHz s" and "outputFreqMHz s \<le> 4400"
  shows "updateRegisters_locals s c \<noteq> Inr None"
proof -
  obtain d sel where ds: "selectOutputDivider (outputFreqMHz s) = (d, sel)"
    by (cases "selectOutputDivider (outputFreqMHz s)")
  have "2200 \<le> outputFreqMHz s * d" "outputFreqMHz s * d \<le> 4400"
    using selectOutputDivider_vco [OF assms] ds by simp_all
  then show ?thesis
    by (simp add: updateRegisters_locals_def ds Let_def split: sum.splits)
qed

text \<open>
  Claim C3. For an output frequency f from 35 to 4400 MHz, \<open>selectOutputDivider\<close> follows
  the breakpoint table (from 2200 up: divider 1, code 0; from 1100: 2, 1; from 550: 4, 2;
  from 275: 8, 3; from 137.5: 16, 4; from 68.75: 32, 5; below: 64, 6). The divider is
  the smallest of 1, 2, 4, 8, 16, 32, 64 whose product with f reaches 2200, and the
  product stays below 4400, except at f = 4400 where it is 4400.
\<close>

theorem selectOutputDivider_table:
  assumes "35 \<le> f" and "f \<le> 4400"
  shows "(2200 \<le> f \<longrightarrow> selectOutputDivider f = (1, 0)) \<and>
         (1100 \<le> f \<and> f < 2200 \<longrightarrow> selectOutputDivider f = (2, 1)) \<and>
         (550 \<le> f \<and> f < 1100 \<longrightarrow> selectOutputDivider f = (4, 2)) \<and>
         (275 \<le> f \<and> f < 550 \<longrightarrow> selectOutputDivider f = (8, 3)) \<and>
         (137.5 \<le> f \<and> f < 275 \<longrightarrow> selectOutputDivider f = (16, 4)) \<and>
         (68.75 \<le> f \<and> f < 137.5 \<longrightarrow> selectOutputDivider f = (32, 5)) \<and>
         (f < 68.75 \<longrightarrow> selectOutputDivider f = (64, 6)) \<and>
         fst (selectOutputDivider f) \<in> {1, 2, 4, 8, 16, 32, 64} \<and>
         (\<forall>d \<in> {1, 2, 4, 8, 16, 32, 64}.
            2200 \<le> f * d \<longrightarrow> fst (selectOutputDivider f) \<le> d) \<and>
         2200 \<le> f * fst (selectOutputDivider f) \<and>
         (f \<noteq> 4400 \<longrightarrow> f * fst (selectOutputDivider f) < 4400) \<and>
         (f = 4400 \<longrightarrow> f * fst (selectOutputDivider f) = 4400)"
  using assms by (auto simp: selectOutputDivider_def)

theorem selectOutputDivider_table_witness:
  "(35 :: real) \<le> 1000 \<and> (1000 :: real) \<le> 4400 \<and>
   selectOutputDivider 4400 = (1, 0) \<and> 4400 * fst (selectOutputDivider 4400) = 4400 \<and>
   selectOutputDivider 1500 = (2, 1) \<and> selectOutputDivider 1000 = (4, 2) \<and>
   selectOutputDivider 300 = (8, 3) \<and> selectOutputDivider 137.5 = (16, 4) \<and>
   selectOutputDivider 100 = (32, 5) \<and> selectOutputDivider 35 = (64, 6) \<and>
   2200 \<le> 35 * fst (selectOutputDivider 35) \<and> 35 * fst (selectOutputDivider 35) < 4400"
  using selectOutputDivider_table [of 4400] selectOutputDivider_table [of 1500]
    selectOutputDivider_table [of 1000] selectOutputDivider_table [of 300]
    selectOutputDivider_table [of "137.5"] selectOutputDivider_table [of 100]
    selectOutputDivider_table [of 35]
  by simp

subsection \<open>The two returns of updateRegisters\<close>

lemma updateRegisters_False:
  "updateRegisters s c = Inr (False, s') \<Longrightarrow> updateRegisters_locals s c = Inr None \<and> s' = s"
  by (auto simp: updateRegisters_def Let_def split: sum.splits option.splits)

lemma updateRegisters_True:
  "updateRegisters s c = Inr (True, s') \<Longrightarrow>
     \<exists>l. updateRegisters_locals s c = Inr (Some l) \<and>
       s' = s\<lparr>bus := bus s @ concat (map (spi_frame (lePin s))
              [reg5, reg4 s l, reg3, reg2 s l, reg1 l, reg0 l])\<rparr>"
  by (auto simp: updateRegisters_def Let_def writeRegister_def split: sum.splits option.splits)

text \<open>
  Claim C4. For a requested frequency f from 35 to 4400 MHz the VCO frequency, f times
  the selected divider, lies between 2200 and 4400 MHz: \<open>updateRegisters\<close> does not take
  the early return of its VCO range check, and \<open>setFrequency\<close> does not return false.
\<close>

theorem vco_check_unreachable:
  assumes "35 \<le> f" and "f \<le> 4400"
  shows "2200 \<le> f * fst (selectOutputDivider f) \<and>
         f * fst (selectOutputDivider f) \<le> 4400 \<and>
         updateRegisters_locals (s\<lparr>outputFreqMHz := f\<rparr>) c \<noteq> Inr None \<and>
         setFrequency s f c \<noteq> Inr (False, s')"
proof -
  have v: "updateRegisters_locals (s\<lparr>outputFreqMHz := f\<rparr>) c \<noteq> Inr None"
    using assms by (intro updateRegisters_locals_vco) simp_all
  have "setFrequency s f c \<noteq> Inr (False, s')"
  proof
    assume "setFrequency s f c = Inr (False, s')"
    with assms have "updateRegisters (s\<lparr>outputFreqMHz := f\<rparr>) c = Inr (False, s')"
      by (simp add: setFrequency_def)
    with v show False by (simp add: updateRegisters_False)
  qed
  with v selectOutputDivider_vco [OF assms] show ?thesis by simp
qed

theorem vco_check_unreachable_witness:
  "(35 :: real) \<le> 35 \<and> (35 :: real) \<le> 4400 \<and>
   2200 \<le> 35 * fst (selectOutputDivider 35) \<and>
   35 * fst (selectOutputDivider 35) \<le> 4400 \<and>
   updateRegisters_locals ((ADF4351 10)\<lparr>outputFreqMHz := 35\<rparr>) 0.01 \<noteq> Inr None \<and>
   setFrequency (ADF4351 10) 35 0.01 \<noteq> Inr (False, ADF4351 10)"
  using vco_check_unreachable [of 35 "ADF4351 10" "0.01" "ADF4351 10"]
  by simp

subsection \<open>The documented scenario: 25 MHz reference, 1000 MHz output, 10 kHz spacing\<close>

lemma scenario_locals:
  "updateRegisters_locals ((ADF4351 pin)\<lparr>outputFreqMHz := 1000\<rparr>) 0.01 =
     Inr (Some \<lparr> outputDivider = 4, RFdivSel = 2, vcoFreqMHz = 4000, N = 160, N_int = 160,
                 MOD = 2500, N_frac = 0, prescaler = 1, ldp = 1, ldf = 1,
                 feedbackSelect = 1, bandSelDiv = 200 \<rparr>)"
  by (simp add: updateRegisters_locals_def ADF4351_def selectOutputDivider_def Let_def
      c_round_def c_floor_def to_uint16_def of_uint16_def)

lemma scenario_setFrequency:
  "setFrequency (ADF4351 pin) 1000 0.01 =
     Inr (True, (ADF4351 pin)\<lparr>outputFreqMHz := 1000,
        bus := concat (map (spi_frame pin)
                 [0x580005, 0xAC803C, 0x4B3, 0x4FC2, 0x800CE21, 0x500000])\<rparr>)"
  using scenario_locals [of pin]
  by (simp add: setFrequency_def updateRegisters_def Let_def writeRegister_def
       reg0_def reg1_def reg2_def reg3_def reg4_def reg5_def)
     (simp add: ADF4351_def)

text \<open>
  Claim C6. With the reference at 25 MHz, R counter 1, doubler and divide-by-2 off, the
  phase detector runs at 25 MHz, and \<open>setFrequency(1000.0, 0.01)\<close> selects divider 4
  with code 2, a VCO frequency of 4000, N_int = 160, MOD = 2500, N_frac = 0, prescaler 1
  and both lock detect bits 1; register 0 is (160 << 15) | (0 << 3) | 0 = 5242880, the
  last of the six words sent.
\<close>

theorem scenario_1000MHz:
  "setReference (ADF4351 pin) 25 1 0 0 = Inr (ADF4351 pin) \<and>
   getPFDFrequency (ADF4351 pin) = 25 \<and>
   selectOutputDivider 1000 = (4, 2) \<and>
   updateRegisters_locals ((ADF4351 pin)\<lparr>outputFreqMHz := 1000\<rparr>) 0.01 =
     Inr (Some \<lparr> outputDivider = 4, RFdivSel = 2, vcoFreqMHz = 4000, N = 160, N_int = 160,
                 MOD = 2500, N_frac = 0, prescaler = 1, ldp = 1, ldf = 1,
                 feedbackSelect = 1, bandSelDiv = 200 \<rparr>) \<and>
   reg0 \<lparr> outputDivider = 4, RFdivSel = 2, vcoFreqMHz = 4000, N = 160, N_int = 160,
          MOD = 2500, N_frac = 0, prescaler = 1, ldp = 1, ldf = 1,
          feedbackSelect = 1, bandSelDiv = 200 \<rparr> = 5242880 \<and>
   (5242880 :: uint32_t) = push_bit 15 160 OR push_bit 3 0 OR 0 \<and>
   setFrequency (ADF4351 pin) 1000 0.01 =
     Inr (True, (ADF4351 pin)\<lparr>outputFreqMHz := 1000,
        bus := concat (map (spi_frame pin)
                 [0x580005, 0xAC803C, 0x4B3, 0x4FC2, 0x800CE21, 5242880])\<rparr>)"
proof (intro conjI)
  show "setReference (ADF4351 pin) 25 1 0 0 = Inr (ADF4351 pin)"
    by (simp add: setReference_def ADF4351_def Let_def)
  show "getPFDFrequency (ADF4351 pin) = 25"
    by (simp add: getPFDFrequency_def ADF4351_def)
  show "selectOutputDivider 1000 = (4, 2)"
    by (simp add: selectOutputDivider_def)
  show "updateRegisters_locals ((ADF4351 pin)\<lparr>outputFreqMHz := 1000\<rparr>) 0.01 =
     Inr (Some \<lparr> outputDivider = 4, RFdivSel = 2, vcoFreqMHz = 4000, N = 160, N_int = 160,
                 MOD = 2500, N_frac = 0, prescaler = 1, ldp = 1, ldf = 1,
                 feedbackSelect = 1, bandSelDiv = 200 \<rparr>)"
    by (rule scenario_locals)
  show "reg0 \<lparr> outputDivider = 4, RFdivSel = 2, vcoFreqMHz = 4000, N = 160, N_int = 160,
          MOD = 2500, N_frac = 0, prescaler = 1, ldp = 1, ldf = 1,
          feedbackSelect = 1, bandSelDiv = 200 \<rparr> = 5242880"
    by (simp add: reg0_def)
  show "(5242880 :: uint32_t) = push_bit 15 160 OR push_bit 3 0 OR 0"
    by simp
  show "setFrequency (ADF4351 pin) 1000 0.01 =
     Inr (True, (ADF4351 pin)\<lparr>outputFreqMHz := 1000,
        bus := concat (map (spi_frame pin)
                 [0x580005, 0xAC803C, 0x4B3, 0x4FC2, 0x800CE21, 5242880])\<rparr>)"
    using scenario_setFrequency [of pin] by simp
qed

subsection \<open>setFrequency and getFrequency\<close>

text \<open>
  Claim C2. When \<open>setFrequency\<close> returns false, the stored output frequency is the one
  from before the call, so \<open>getFrequency\<close> returns what it returned before, and nothing
  has been sent to the chip. A frequency below 35 or above 4400 MHz is such a call.
\<close>

theorem setFrequency_failure_isolation:
  "(setFrequency s f c = Inr (False, s') \<longrightarrow>
      getFrequency s' = getFrequency s \<and> bus s' = bus s) \<and>
   (f < 35 \<or> f > 4400 \<longrightarrow> setFrequency s f c = Inr (False, s))"
proof (intro conjI impI)
  assume r: "setFrequency s f c = Inr (False, s')"
  have "s' = s"
  proof (cases "f < 35 \<or> f > 4400")
    case True
    with r show ?thesis by (simp add: setFrequency_def)
  next
    case False
    with r have "updateRegisters (s\<lparr>outputFreqMHz := f\<rparr>) c = Inr (False, s')"
      by (simp add: setFrequency_def)
    then have "updateRegisters_locals (s\<lparr>outputFreqMHz := f\<rparr>) c = Inr None"
      by (simp add: updateRegisters_False)
    moreover have "updateRegisters_locals (s\<lparr>outputFreqMHz := f\<rparr>) c \<noteq> Inr None"
      using False by (intro updateRegisters_locals_vco) simp_all
    ultimately show ?thesis by simp
  qed
  then show "getFrequency s' = getFrequency s" and "bus s' = bus s" by simp_all
next
  assume "f < 35 \<or> f > 4400"
  then show "setFrequency s f c = Inr (False, s)"
    by (simp add: setFrequency_def)
qed

theorem setFrequency_failure_isolation_witness:
  "(34.9 :: real) < 35 \<and>
   setFrequency ((ADF4351 10)\<lparr>outputFreqMHz := 1000\<rparr>) 34.9 0.01
     = Inr (False, (ADF4351 10)\<lparr>outputFreqMHz := 1000\<rparr>) \<and>
   (4400.1 :: real) > 4400 \<and>
   setFrequency ((ADF4351 10)\<lparr>outputFreqMHz := 1000\<rparr>) 4400.1 0.01
     = Inr (False, (ADF4351 10)\<lparr>outputFreqMHz := 1000\<rparr>) \<and>
   getFrequency ((ADF4351 10)\<lparr>outputFreqMHz := 1000\<rparr>) = 1000"
  using
    setFrequency_failure_isolation [of "(ADF4351 10)\<lparr>outputFreqMHz := 1000\<rparr>" "34.9" "0.01"
      "(ADF4351 10)\<lparr>outputFreqMHz := 1000\<rparr>"]
    setFrequency_failure_isolation [of "(ADF4351 10)\<lparr>outputFreqMHz := 1000\<rparr>" "4400.1" "0.01"
      "(ADF4351 10)\<lparr>outputFreqMHz := 1000\<rparr>"]
  by (simp add: getFrequency_def)

text \<open>
  Claim C8. For a frequency f from 35 to 4400 MHz and a channel spacing c above 0, when
  \<open>setFrequency\<close> returns true, \<open>getFrequency\<close> then returns f.
\<close>

theorem setFrequency_roundtrip:
  assumes "35 \<le> f" and "f \<le> 4400" and "0 < c"
    and "setFrequency s f c = Inr (True, s')"
  shows "getFrequency s' = f"
proof -
  from assms have "updateRegisters (s\<lparr>outputFreqMHz := f\<rparr>) c = Inr (True, s')"
    by (simp add: setFrequency_def)
  from updateRegisters_True [OF this] show ?thesis
    by (auto simp: getFrequency_def)
qed

theorem setFrequency_roundtrip_witness:
  "(35 :: real) \<le> 1000 \<and> (1000 :: real) \<le> 4400 \<and> (0 :: real) < 0.01 \<and>
   setFrequency (ADF4351 10) 1000 0.01 =
     Inr (True, (ADF4351 10)\<lparr>outputFreqMHz := 1000,
        bus := concat (map (spi_frame 10)
                 [0x580005, 0xAC803C, 0x4B3, 0x4FC2, 0x800CE21, 0x500000])\<rparr>) \<and>
   getFrequency ((ADF4351 10)\<lparr>outputFreqMHz := 1000,
        bus := concat (map (spi_frame 10)
                 [0x580005, 0xAC803C, 0x4B3, 0x4FC2, 0x800CE21, 0x500000])\<rparr>) = 1000"
proof -
  note h = scenario_setFrequency [of 10]
  have "(35 :: real) \<le> 1000" "(1000 :: real) \<le> 4400" "(0 :: real) < 0.01"
    by simp_all
  from this h setFrequency_roundtrip [OF this h] show ?thesis
    by (intro conjI)
qed

subsection \<open>The setters that clamp\<close>

text \<open>
  Claim C9. \<open>setOutputPower\<close> and \<open>setChargePumpCurrent\<close> accept every input: a power
  level above 3 is stored as 3 and a charge pump current above 15 as 15, any other value
  as it is, so the stored settings are at most 3 and at most 15.
\<close>

theorem setters_clamp:
  "outputPower (setOutputPower s p) = (if p > 3 then 3 else p) \<and>
   outputPower (setOutputPower s p) \<le> 3 \<and>
   chargePumpCurr (setChargePumpCurrent s i) = (if i > 15 then 15 else i) \<and>
   chargePumpCurr (setChargePumpCurrent s i) \<le> 15"
  by (simp add: setOutputPower_def setChargePumpCurrent_def not_less)

subsection \<open>What a successful call sends\<close>

text \<open>A register write determines its word: the four bytes on the bus are the whole word.\<close>

lemma byte_bit:
  fixes w :: uint32_t
  assumes "m < 8" and "k + m < 32"
  shows "bit (ucast (drop_bit k w AND 0xFF) :: uint8_t) m = bit w (k + m)"
proof -
  have ff: "(0xFF :: uint32_t) = mask 8"
    by (simp add: mask_eq_exp_minus_1)
  show ?thesis
    unfolding ff using assms by (simp add: bit_simps)
qed

lemma spi_frame_inj:
  assumes "spi_frame p w = spi_frame p w'"
  shows "w = w'"
proof (rule bit_word_eqI)
  fix n :: nat
  assume "n < LENGTH(32)"
  then have n: "n < 32" by simp
  from assms have
    b3: "(ucast (drop_bit 24 w AND 0xFF) :: uint8_t) = ucast (drop_bit 24 w' AND 0xFF)" and
    b2: "(ucast (drop_bit 16 w AND 0xFF) :: uint8_t) = ucast (drop_bit 16 w' AND 0xFF)" and
    b1: "(ucast (drop_bit 8 w AND 0xFF) :: uint8_t) = ucast (drop_bit 8 w' AND 0xFF)" and
    b0: "(ucast (drop_bit 0 w AND 0xFF) :: uint8_t) = ucast (drop_bit 0 w' AND 0xFF)"
    by (simp_all add: spi_frame_def)
  consider "n < 8" | "8 \<le> n" "n < 16" | "16 \<le> n" "n < 24" | "24 \<le> n"
    by linarith
  then show "bit w n = bit w' n"
  proof cases
    case 1
    then show ?thesis
      using byte_bit [of n 0 w] byte_bit [of n 0 w'] b0 by simp
  next
    case 2
    then show ?thesis
      using byte_bit [of "n - 8" 8 w] byte_bit [of "n - 8" 8 w'] b1 by simp
  next
    case 3
    then show ?thesis
      using byte_bit [of "n - 16" 16 w] byte_bit [of "n - 16" 16 w'] b2 by simp
  next
    case 4
    then show ?thesis
      using n byte_bit [of "n - 24" 24 w] byte_bit [of "n - 24" 24 w'] b3 by simp
  qed
qed

text \<open>Every field of a register word lies above the three address bits.\<close>

lemma low_bits_push:
  fixes x :: uint32_t
  assumes "3 \<le> n"
  shows "push_bit n x AND 7 = 0"
proof -
  have "take_bit 3 (push_bit n x) = 0"
    using assms by (simp add: take_bit_push_bit)
  then show ?thesis by (simp add: take_bit_eq_mask mask_eq_exp_minus_1)
qed

lemma reg_addresses:
  "reg5 AND 7 = 5" "reg4 s l AND 7 = 4" "reg3 AND 7 = 3" "reg2 s l AND 7 = 2"
  "reg1 l AND 7 = 1" "reg0 l AND 7 = 0"
  by (simp_all add: reg0_def reg1_def reg2_def reg3_def reg4_def reg5_def
       bit.conj_disj_distrib2 low_bits_push)

text \<open>
  Claim C7. A call of \<open>setFrequency\<close> that returns true appends six register writes
  to the bus trace and nothing else; they carry, in this order, the words of registers
  5, 4, 3, 2, 1 and 0, and the low three bits of each word are the address of its register.
\<close>

theorem setFrequency_emits_registers:
  assumes "setFrequency s f c = Inr (True, s')"
  shows "\<exists>ws. bus s' = bus s @ concat (map (spi_frame (lePin s)) ws) \<and>
           length ws = 6 \<and> map (\<lambda>w. w AND 7) ws = [5, 4, 3, 2, 1, 0]"
proof -
  let ?s = "s\<lparr>outputFreqMHz := f\<rparr>"
  from assms have "updateRegisters ?s c = Inr (True, s')"
    by (simp add: setFrequency_def split: if_splits)
  from updateRegisters_True [OF this] obtain l where
    "s' = ?s\<lparr>bus := bus ?s @ concat (map (spi_frame (lePin ?s))
              [reg5, reg4 ?s l, reg3, reg2 ?s l, reg1 l, reg0 l])\<rparr>"
    by blast
  then have a: "bus s' = bus s @ concat (map (spi_frame (lePin s))
              [reg5, reg4 ?s l, reg3, reg2 ?s l, reg1 l, reg0 l])"
    by simp
  have b: "length [reg5, reg4 ?s l, reg3, reg2 ?s l, reg1 l, reg0 l] = 6"
    by simp
  have c: "map (\<lambda>w. w AND 7) [reg5, reg4 ?s l, reg3, reg2 ?s l, reg1 l, reg0 l]
      = [5, 4, 3, 2, 1, 0]"
    by (simp add: reg_addresses)
  from a b c show ?thesis
    by (intro exI [of _ "[reg5, reg4 ?s l, reg3, reg2 ?s l, reg1 l, reg0 l]"] conjI)
qed

theorem setFrequency_emits_registers_witness:
  "setFrequency (ADF4351 10) 1000 0.01 =
     Inr (True, (ADF4351 10)\<lparr>outputFreqMHz := 1000,
        bus := concat (map (spi_frame 10)
                 [0x580005, 0xAC803C, 0x4B3, 0x4FC2, 0x800CE21, 0x500000])\<rparr>) \<and>
   (\<exists>ws. bus ((ADF4351 10)\<lparr>outputFreqMHz := 1000,
        bus := concat (map (spi_frame 10)
                 [0x580005, 0xAC803C, 0x4B3, 0x4FC2, 0x800CE21, 0x500000])\<rparr>)
      = bus (ADF4351 10) @ concat (map (spi_frame (lePin (ADF4351 10))) ws) \<and>
      length ws = 6 \<and> map (\<lambda>w. w AND 7) ws = [5, 4, 3, 2, 1, 0])"
proof -
  note h = scenario_setFrequency [of 10]
  from h setFrequency_emits_registers [OF h] show ?thesis
    by (intro conjI)
qed

subsection \<open>The modulus\<close>

text \<open>Where \<open>updateRegisters\<close> computes its values, the modulus is the rounded quotient, at most 4095.\<close>

lemma MOD_clamped:
  assumes l: "updateRegisters_locals s c = Inr (Some l)"
    and pfd: "0 < pfdFreqMHz s" and c: "0 < c"
  shows "uint (MOD l) = min \<lfloor>pfdFreqMHz s / c + 1 / 2\<rfloor> 4095"
proof -
  define m where "m = \<lfloor>pfdFreqMHz s / c + 1 / 2\<rfloor>"
  have q: "0 \<le> pfdFreqMHz s / c"
    using pfd c by simp
  then have m0: "0 \<le> m"
    by (simp add: m_def)
  from l obtain m0 where
    conv: "to_uint16 (c_round (pfdFreqMHz s / c)) = Inr m0" and
    M: "MOD l = (if m0 > 4095 then 4095 else m0)"
    by (auto simp: updateRegisters_locals_def Let_def split: sum.splits prod.splits if_splits)
  from conv have "to_uint16 (real_of_int m) = Inr m0"
    by (simp only: c_round_nonneg [OF q] m_def)
  then have "m < 65536" and "m0 = word_of_int m"
    using m0 by (simp_all add: to_uint16_def split: if_splits)
  then have u: "uint m0 = m"
    using m0 by (simp add: uint_uint16_of_int)
  have "(m0 > 4095) = (4095 < uint m0)"
    by (simp add: word_less_def)
  with u M show ?thesis
    by (simp add: m_def [symmetric])
qed

text \<open>
  Claim C5. The modulus is to be the rounded quotient pfd / c, at most 4095. The source
  converts the rounded quotient to \<open>uint16_t\<close> first and compares with 4095 afterwards.
  With the phase detector at 25 MHz and a channel spacing of 0.000375 MHz the rounded
  quotient is 66667, which a \<open>uint16_t\<close> cannot hold: the conversion is undefined and
  \<open>setFrequency\<close> has no defined result, where the claim gives the modulus 4095.
\<close>

theorem MOD_conversion_overflow:
  "0 < pfdFreqMHz (ADF4351 10) \<and> (0 :: real) < 0.000375 \<and>
   c_round (pfdFreqMHz (ADF4351 10) / 0.000375) = 66667 \<and>
   to_uint16 (c_round (pfdFreqMHz (ADF4351 10) / 0.000375)) = Inl FloatToIntOutOfRange \<and>
   setFrequency (ADF4351 10) 1000 0.000375 = Inl FloatToIntOutOfRange"
  by (simp add: setFrequency_def updateRegisters_def updateRegisters_locals_def ADF4351_def
      selectOutputDivider_def Let_def c_round_def c_floor_def to_uint16_def of_uint16_def)

text \<open>
  Claim C10. The modulus is to be nonzero where the carry correction divides by it.
  With the phase detector at 25 MHz and a channel spacing of 100 MHz the quotient 0.25
  rounds to the modulus 0; the fractional numerator is 0 as well, the test
  \<open>N_frac >= MOD\<close> holds, and the correction divides by zero.
\<close>

theorem MOD_zero_division:
  "(35 :: real) \<le> 1000 \<and> (1000 :: real) \<le> 4400 \<and> (0 :: real) < 100 \<and>
   0 < pfdFreqMHz (ADF4351 10) \<and>
   to_uint16 (c_round (pfdFreqMHz (ADF4351 10) / 100)) = Inr 0 \<and>
   setFrequency (ADF4351 10) 1000 100 = Inl IntegerDivisionByZero"
  by (simp add: setFrequency_def updateRegisters_def updateRegisters_locals_def ADF4351_def
      selectOutputDivider_def Let_def c_round_def c_floor_def to_uint16_def of_uint16_def)

subsection \<open>The fractional numerator\<close>

text \<open>The locals with explicit rounding are the locals above when nothing is rounded.\<close>

lemma updateRegisters_locals_rnd_exact:
  "updateRegisters_locals_rnd (\<lambda>x. x) s c = updateRegisters_locals s c"
  by (simp add: updateRegisters_locals_rnd_def updateRegisters_locals_def)

text \<open>
  The carry correction: whatever values are computed, and however the arithmetic rounds,
  the numerator ends below the modulus.
\<close>

lemma N_frac_after_carry_rnd:
  assumes "updateRegisters_locals_rnd rnd s c = Inr (Some l)"
  shows "N_frac l < MOD l"
  using assms
  by (auto simp: updateRegisters_locals_rnd_def Let_def not_le word_mod_less_divisor
        word_greater_zero_iff
      split: sum.splits prod.splits if_splits)

lemma updateRegisters_locals_rnd_unfold:
  assumes "selectOutputDivider (outputFreqMHz s) = (d, sel)"
    and "2200 \<le> rnd (outputFreqMHz s * d)" and "rnd (outputFreqMHz s * d) \<le> 4400"
    and "pfdFreqMHz s \<noteq> 0" and "c \<noteq> 0"
    and "n = rnd (rnd (outputFreqMHz s * d) / pfdFreqMHz s)"
    and "to_uint16 (c_floor n) = Inr ni"
    and "to_uint16 (c_round (rnd (pfdFreqMHz s / c))) = Inr m0"
    and "M = (if m0 > 4095 then 4095 else m0)"
    and "to_uint16 (c_round (rnd (rnd (n - of_uint16 ni) * of_uint16 M))) = Inr k"
    and "M \<noteq> 0"
  shows "\<exists>l. updateRegisters_locals_rnd rnd s c = Inr (Some l)"
  using assms by (simp add: updateRegisters_locals_rnd_def Let_def not_less)

lemma MOD_nonzero:
  assumes "1 \<le> m" and "m < 65536"
  shows "(if (word_of_int m :: uint16_t) > 4095 then 4095 else word_of_int m) \<noteq> (0 :: uint16_t)"
proof -
  have "uint (word_of_int m :: uint16_t) = m"
    using assms by (intro uint_uint16_of_int) simp_all
  then have "(word_of_int m :: uint16_t) \<noteq> 0"
    using assms by auto
  then show ?thesis by simp
qed

lemma of_uint16_MOD_bounds:
  fixes m0 :: uint16_t
  shows "0 \<le> of_uint16 (if m0 > 4095 then 4095 else m0)"
    and "of_uint16 (if m0 > 4095 then 4095 else m0) \<le> 4095"
proof -
  show "0 \<le> of_uint16 (if m0 > 4095 then 4095 else m0)"
    by (simp only: of_uint16_def of_nat_0_le_iff)
  have "\<not> m0 > 4095 \<Longrightarrow> unat m0 \<le> 4095"
    by (simp add: not_less word_le_nat_alt)
  then have "unat (if m0 > 4095 then 4095 else m0) \<le> 4095"
    by simp
  then have "real (unat (if m0 > 4095 then 4095 else m0)) \<le> real 4095"
    by (simp only: of_nat_le_iff)
  then show "of_uint16 (if m0 > 4095 then 4095 else m0) \<le> 4095"
    by (simp only: of_uint16_def of_nat_numeral)
qed

text \<open>
  Claim C1, amended. Let the rounding of \<open>double\<close> arithmetic be monotone and leave
  0, 1, 2200, 4095 and 4400 as they are, as rounding to nearest does. Take an output
  frequency from 35 to 4400 MHz, a phase detector frequency above 0 and a channel
  spacing c above 0, such that N = vco / pfd, as computed, is below 65536 and the
  quotient pfd / c, as computed, is at least 1/2 and below 65535.5 (N then fits a
  \<open>uint16_t\<close> and the rounded quotient is one of 1 .. 65535). Then \<open>updateRegisters\<close>
  computes its values, and the fractional numerator after the carry correction is below
  the modulus.
\<close>

theorem N_frac_lt_MOD:
  assumes mono: "mono rnd"
    and r0: "rnd 0 = 0" and r1: "rnd 1 = 1" and r2200: "rnd 2200 = 2200"
    and r4095: "rnd 4095 = 4095" and r4400: "rnd 4400 = 4400"
    and f: "35 \<le> outputFreqMHz s" "outputFreqMHz s \<le> 4400"
    and pfd: "0 < pfdFreqMHz s" and c: "0 < c"
    and Nfit: "rnd (rnd (outputFreqMHz s * fst (selectOutputDivider (outputFreqMHz s)))
                     / pfdFreqMHz s) < 65536"
    and MODlo: "1 / 2 \<le> rnd (pfdFreqMHz s / c)"
    and MODhi: "rnd (pfdFreqMHz s / c) < 65535 + 1 / 2"
  shows "\<exists>l. updateRegisters_locals_rnd rnd s c = Inr (Some l) \<and> N_frac l < MOD l"
proof -
  have between: "a \<le> rnd x \<and> rnd x \<le> b"
    if "a \<le> x" "x \<le> b" "rnd a = a" "rnd b = b" for a b x
    using monoD [OF mono that(1)] monoD [OF mono that(2)] that(3,4) by simp
  obtain d sel where ds: "selectOutputDivider (outputFreqMHz s) = (d, sel)"
    by (cases "selectOutputDivider (outputFreqMHz s)")
  have "2200 \<le> outputFreqMHz s * d" "outputFreqMHz s * d \<le> 4400"
    using selectOutputDivider_vco [OF f] ds by simp_all
  then have vco: "2200 \<le> rnd (outputFreqMHz s * d)" "rnd (outputFreqMHz s * d) \<le> 4400"
    using between [OF _ _ r2200 r4400] by blast+
  define n where "n = rnd (rnd (outputFreqMHz s * d) / pfdFreqMHz s)"
  have "0 \<le> rnd (outputFreqMHz s * d) / pfdFreqMHz s"
    using vco pfd by simp
  from monoD [OF mono this] have n0: "0 \<le> n"
    by (simp add: n_def r0)
  have n1: "n < 65536"
    using Nfit ds by (simp add: n_def)
  have ni: "0 \<le> \<lfloor>n\<rfloor>" "\<lfloor>n\<rfloor> < 65536"
    using n0 n1 by (simp_all add: floor_less_iff)
  have c1: "to_uint16 (c_floor n) = Inr (word_of_int \<lfloor>n\<rfloor>)"
    unfolding c_floor_def using ni by (rule to_uint16_of_int)
  define q where "q = rnd (pfdFreqMHz s / c)"
  define m where "m = \<lfloor>q + 1 / 2\<rfloor>"
  have q: "0 \<le> q"
    using MODlo by (simp add: q_def)
  have "1 \<le> q + 1 / 2" "q + 1 / 2 < 65536"
    using MODlo MODhi unfolding q_def by linarith+
  then have m: "1 \<le> m" "m < 65536"
    unfolding m_def by (simp_all only: le_floor_iff floor_less_iff of_int_1 of_int_numeral)
  have c2: "to_uint16 (c_round q) = Inr (word_of_int m)"
    unfolding c_round_nonneg [OF q] m_def [symmetric]
    using m by (intro to_uint16_of_int) simp_all
  define M :: uint16_t
    where "M = (if (word_of_int m :: uint16_t) > 4095 then 4095 else word_of_int m)"
  have M0: "M \<noteq> 0"
    unfolding M_def using m by (rule MOD_nonzero)
  have M: "0 \<le> of_uint16 M" "of_uint16 M \<le> 4095"
    unfolding M_def by (rule of_uint16_MOD_bounds)+
  define y where "y = rnd (n - of_uint16 (word_of_int \<lfloor>n\<rfloor>))"
  have "0 \<le> n - of_uint16 (word_of_int \<lfloor>n\<rfloor>)" "n - of_uint16 (word_of_int \<lfloor>n\<rfloor>) \<le> 1"
    unfolding of_uint16_of_int [OF ni] by linarith+
  then have y: "0 \<le> y" "y \<le> 1"
    unfolding y_def using between [OF _ _ r0 r1] by blast+
  have p0: "0 \<le> y * of_uint16 M"
    using y(1) M(1) by (rule mult_nonneg_nonneg)
  have "y * of_uint16 M \<le> 1 * 4095"
    using y M by (intro mult_mono) simp_all
  then have p1: "y * of_uint16 M \<le> 4095" by simp
  define x where "x = rnd (y * of_uint16 M)"
  have x: "0 \<le> x" "x \<le> 4095"
    unfolding x_def using between [OF p0 p1 r0 r4095] by blast+
  have k: "0 \<le> \<lfloor>x + 1 / 2\<rfloor>" "\<lfloor>x + 1 / 2\<rfloor> < 65536"
    using x by (simp_all add: floor_less_iff)
  have c3: "to_uint16 (c_round x) = Inr (word_of_int \<lfloor>x + 1 / 2\<rfloor>)"
    unfolding c_round_nonneg [OF x(1)] using k by (rule to_uint16_of_int)
  have "\<exists>l. updateRegisters_locals_rnd rnd s c = Inr (Some l)"
  proof (rule updateRegisters_locals_rnd_unfold [OF ds vco _ _ n_def c1 _ M_def _ M0])
    show "pfdFreqMHz s \<noteq> 0" using pfd by simp
    show "c \<noteq> 0" using c by simp
    show "to_uint16 (c_round (rnd (pfdFreqMHz s / c))) = Inr (word_of_int m)"
      using c2 by (simp only: q_def)
    show "to_uint16 (c_round (rnd (rnd (n - of_uint16 (word_of_int \<lfloor>n\<rfloor>)) * of_uint16 M)))
            = Inr (word_of_int \<lfloor>x + 1 / 2\<rfloor>)"
      using c3 by (simp only: x_def y_def)
  qed
  then obtain l where "updateRegisters_locals_rnd rnd s c = Inr (Some l)" by blast
  then show ?thesis
    using N_frac_after_carry_rnd by blast
qed

theorem N_frac_lt_MOD_witness:
  "mono (\<lambda>x :: real. x) \<and>
   (\<lambda>x :: real. x) 0 = 0 \<and> (\<lambda>x :: real. x) 1 = 1 \<and> (\<lambda>x :: real. x) 2200 = 2200 \<and>
   (\<lambda>x :: real. x) 4095 = 4095 \<and> (\<lambda>x :: real. x) 4400 = 4400 \<and>
   35 \<le> outputFreqMHz ((ADF4351 10)\<lparr>outputFreqMHz := 32972775 / 32768\<rparr>) \<and>
   outputFreqMHz ((ADF4351 10)\<lparr>outputFreqMHz := 32972775 / 32768\<rparr>) \<le> 4400 \<and>
   0 < pfdFreqMHz ((ADF4351 10)\<lparr>outputFreqMHz := 32972775 / 32768\<rparr>) \<and>
   (0 :: real) < 1 / 128 \<and>
   outputFreqMHz ((ADF4351 10)\<lparr>outputFreqMHz := 32972775 / 32768\<rparr>)
     * fst (selectOutputDivider
              (outputFreqMHz ((ADF4351 10)\<lparr>outputFreqMHz := 32972775 / 32768\<rparr>)))
     / pfdFreqMHz ((ADF4351 10)\<lparr>outputFreqMHz := 32972775 / 32768\<rparr>) < 65536 \<and>
   1 / 2 \<le> pfdFreqMHz ((ADF4351 10)\<lparr>outputFreqMHz := 32972775 / 32768\<rparr>) / (1 / 128) \<and>
   pfdFreqMHz ((ADF4351 10)\<lparr>outputFreqMHz := 32972775 / 32768\<rparr>) / (1 / 128)
     < 65535 + 1 / 2 \<and>
   (\<exists>l. updateRegisters_locals_rnd (\<lambda>x. x)
           ((ADF4351 10)\<lparr>outputFreqMHz := 32972775 / 32768\<rparr>) (1 / 128)
          = Inr (Some l) \<and> N_frac l < MOD l)"
  using N_frac_lt_MOD [of "\<lambda>x. x" "(ADF4351 10)\<lparr>outputFreqMHz := 32972775 / 32768\<rparr>" "1 / 128"]
  by (simp add: ADF4351_def selectOutputDivider_def mono_def)

theorem N_frac_lt_MOD_counterexample:
  "(35 :: real) \<le> 1000 \<and> (1000 :: real) \<le> 4400 \<and>
   0 < pfdFreqMHz (ADF4351 10) \<and> (0 :: real) < 100 \<and>
   updateRegisters_locals ((ADF4351 10)\<lparr>outputFreqMHz := 1000\<rparr>) 100
     = Inl IntegerDivisionByZero \<and>
   (0 :: real) < 0.000375 \<and>
   updateRegisters_locals ((ADF4351 10)\<lparr>outputFreqMHz := 1000\<rparr>) 0.000375
     = Inl FloatToIntOutOfRange \<and>
   setReference (ADF4351 10) 10 200 0 0
     = Inr ((ADF4351 10)\<lparr>refFreqMHz := 10, rCounter := 200, pfdFreqMHz := 0.05\<rparr>) \<and>
   (0 :: real) < 0.05 \<and> (0 :: real) < 0.01 \<and>
   updateRegisters_locals
     ((ADF4351 10)\<lparr>refFreqMHz := 10, rCounter := 200, pfdFreqMHz := 0.05,
         outputFreqMHz := 1000\<rparr>) 0.01
     = Inl FloatToIntOutOfRange"
  by (simp add: updateRegisters_locals_def setReference_def ADF4351_def selectOutputDivider_def
      Let_def c_round_def c_floor_def to_uint16_def of_uint16_def)

end
